theory Spec2Isabelle
  imports Complex_Main
begin

section \<open>The password reset flow of \<open>FirebaseService\<close>\<close>

text \<open>
  The development embeds the three password reset methods of
  \<^verbatim>\<open>elite-glam-backend/src/firebase/firebase.service.ts\<close>
  (\<^verbatim>\<open>sendPasswordResetCode\<close>, \<^verbatim>\<open>verifyPasswordResetCode\<close>,
  \<^verbatim>\<open>resetPassword\<close>) together with \<^verbatim>\<open>getUserByEmail\<close>, which the last
  one calls. The service object is a record that is passed in and returned; a thrown
  \<^verbatim>\<open>Error\<close> is the \<open>Inl\<close> side of a sum. The clock (\<^verbatim>\<open>Date.now()\<close>,
  \<^verbatim>\<open>new Date()\<close>), the random draw (\<^verbatim>\<open>Math.random()\<close>) and the e-mail
  service are arguments of the method that reads them.
\<close>

subsection \<open>Double precision arithmetic\<close>

text \<open>
  JavaScript numbers are IEEE 754 doubles. A product or sum of two doubles is the exact
  real result rounded to the nearest double, ties to the even significand. \<open>ulp x\<close>
  is the spacing of the doubles around \<open>x\<close> (52 fraction bits, least exponent
  \<open>-1022\<close>), and \<open>fl\<close> is the rounding, for magnitudes below \<open>2^1024\<close>
  (nothing here comes near the overflow threshold). Doubles are the real numbers they
  denote.
\<close>

definition round_half_even :: "real \<Rightarrow> int" where
  "round_half_even r =
     (let f = \<lfloor>r\<rfloor>; d = r - of_int f
      in if d < 1 / 2 then f
         else if 1 / 2 < d then f + 1
         else if even f then f else f + 1)"

text \<open>
  The exponent \<open>e\<close> of a positive number \<open>x\<close>, with
  \<open>2^e \<le> x < 2^(e+1)\<close>, found by halving or doubling.
\<close>

function binary_exponent :: "real \<Rightarrow> int" where
  "binary_exponent x =
     (if x \<le> 0 then 0
      else if 2 \<le> x then binary_exponent (x / 2) + 1
      else if x < 1 then binary_exponent (2 * x) - 1
      else 0)"
  by pat_completeness auto
termination
proof (relation "measure (\<lambda>x. nat \<bar>\<lfloor>log 2 x\<rfloor>\<bar>)")
  show "wf (measure (\<lambda>x. nat \<bar>\<lfloor>log 2 x\<rfloor>\<bar>))" by simp
next
  fix x :: real
  assume "\<not> x \<le> 0" "2 \<le> x"
  then have "log 2 (x / 2) = log 2 x - 1" "1 \<le> log 2 x"
    by (simp_all add: log_divide le_log_iff)
  then have "\<lfloor>log 2 (x / 2)\<rfloor> = \<lfloor>log 2 x\<rfloor> - 1" "1 \<le> \<lfloor>log 2 x\<rfloor>"
    by linarith+
  then have "nat \<bar>\<lfloor>log 2 (x / 2)\<rfloor>\<bar> < nat \<bar>\<lfloor>log 2 x\<rfloor>\<bar>" by linarith
  then show "(x / 2, x) \<in> measure (\<lambda>x. nat \<bar>\<lfloor>log 2 x\<rfloor>\<bar>)" by simp
next
  fix x :: real
  assume "\<not> x \<le> 0" "\<not> 2 \<le> x" "x < 1"
  then have "log 2 (2 * x) = log 2 x + 1" "log 2 x < 0"
    by (simp_all add: log_mult)
  then have "\<lfloor>log 2 (2 * x)\<rfloor> = \<lfloor>log 2 x\<rfloor> + 1" "\<lfloor>log 2 x\<rfloor> < 0"
    by linarith+
  then have "nat \<bar>\<lfloor>log 2 (2 * x)\<rfloor>\<bar> < nat \<bar>\<lfloor>log 2 x\<rfloor>\<bar>" by linarith
  then show "(2 * x, x) \<in> measure (\<lambda>x. nat \<bar>\<lfloor>log 2 x\<rfloor>\<bar>)" by simp
qed

declare binary_exponent.simps [simp del]

definition ulp_exp :: "real \<Rightarrow> int" where
  "ulp_exp x = max (binary_exponent \<bar>x\<bar>) (- 1022) - 52"

definition ulp :: "real \<Rightarrow> real" where
  "ulp x = 2 powr of_int (ulp_exp x)"

definition fl :: "real \<Rightarrow> real" where
  "fl x = (if x = 0 then 0 else of_int (round_half_even (x / ulp x)) * ulp x)"

text \<open>A real number is a double when rounding leaves it alone.\<close>

definition is_double :: "real \<Rightarrow> bool" where
  "is_double x \<longleftrightarrow> fl x = x"

text \<open>
  \<^verbatim>\<open>Math.random()\<close> yields a double in \<open>[0, 1)\<close>; no more is assumed of it.
\<close>

definition random_outcome :: "real \<Rightarrow> bool" where
  "random_outcome u \<longleftrightarrow> is_double u \<and> 0 \<le> u \<and> u < 1"

subsection \<open>\<^verbatim>\<open>Number.prototype.toString\<close> on integers\<close>

definition digit_char :: "nat \<Rightarrow> char" where
  "digit_char d = ''0123456789'' ! d"

fun show_nat :: "nat \<Rightarrow> string" where
  "show_nat n = (if n < 10 then [digit_char n] else show_nat (n div 10) @ [digit_char (n mod 10)])"

declare show_nat.simps [simp del]

text \<open>
  The decimal form of an integer valued number (below \<open>10^21\<close> in magnitude
  JavaScript prints all digits, without an exponent).
\<close>

definition toString :: "int \<Rightarrow> string" where
  "toString i = (if i < 0 then CHR ''-'' # show_nat (nat (- i)) else show_nat (nat i))"

text \<open>Reading a string of decimal digits back, most significant digit first.\<close>

definition digit_value :: "char \<Rightarrow> nat" where
  "digit_value c = of_char c - 48"

definition digits_value :: "string \<Rightarrow> nat" where
  "digits_value s = foldl (\<lambda>acc c. 10 * acc + digit_value c) 0 s"

subsection \<open>Data\<close>

text \<open>
  Times are milliseconds since the epoch, as \<^verbatim>\<open>Date.now()\<close> counts them, and a
  \<^verbatim>\<open>Date\<close> is its time value (two dates compare by it). Clock readings are taken
  to lie inside the range of \<^verbatim>\<open>Date\<close>, where adding ten minutes is exact.
\<close>

type_synonym time = int

text \<open>The values of \<^verbatim>\<open>resetCodes\<close>: \<^verbatim>\<open>{ code: string; expires: Date }\<close>.\<close>

record reset_entry =
  code :: string
  expires :: time

text \<open>\<^verbatim>\<open>UserRecord\<close> of \<^verbatim>\<open>database.types\<close>, the fields without a question mark.\<close>

record user_record =
  uid :: string
  username :: string
  userEmail :: string

text \<open>
  What the managed platform answers. \<^verbatim>\<open>auth.getUserByEmail\<close> resolves to a record
  with a uid, rejects with code \<^verbatim>\<open>auth/user-not-found\<close>, or rejects otherwise; reading
  the document \<^verbatim>\<open>users/<uid>\<close> gives its data, a snapshot that does not exist, or a
  rejection.
\<close>

datatype auth_lookup = AuthUser string | AuthUserNotFound | AuthRejected

datatype doc_lookup = DocData user_record | DocMissing | DocRejected

text \<open>
  The service object: the two platform handles it holds (as the answers they give) and
  the private map \<^verbatim>\<open>resetCodes\<close>. \<open>auth_updateUser uid password\<close> tells whether
  \<^verbatim>\<open>auth.updateUser(uid, {password})\<close> resolves.
\<close>

record firebase_service =
  auth_getUserByEmail :: "string \<Rightarrow> auth_lookup"
  auth_updateUser :: "string \<Rightarrow> string \<Rightarrow> bool"
  db_users :: "string \<Rightarrow> doc_lookup"
  resetCodes :: "string \<rightharpoonup> reset_entry"

text \<open>The errors the three methods throw.\<close>

datatype error =
    SendFailed              \<comment> \<open>\<^verbatim>\<open>Error('Failed to send password reset code')\<close>\<close>
  | InvalidOrExpiredCode    \<comment> \<open>\<^verbatim>\<open>Error('Invalid or expired verification code')\<close>\<close>
  | UserNotFound            \<comment> \<open>\<^verbatim>\<open>Error('User not found')\<close>\<close>
  | LookupRejected          \<comment> \<open>an error of the platform rethrown by \<^verbatim>\<open>getUserByEmail\<close>\<close>
  | UpdateRejected          \<comment> \<open>the rejection of \<^verbatim>\<open>auth.updateUser\<close>, rethrown\<close>

subsection \<open>Operations\<close>

text \<open>\<^verbatim>\<open>Math.floor(100000 + Math.random() * 900000)\<close>, the draw being \<open>u\<close>.\<close>

definition code_number :: "real \<Rightarrow> int" where
  "code_number u = \<lfloor>fl (100000 + fl (u * 900000))\<rfloor>"

text \<open>
  \<^verbatim>\<open>sendPasswordResetCode(email)\<close>, at time \<open>now\<close>, with the draw \<open>u\<close>.
  \<open>emailService e c\<close> tells whether importing, constructing and calling the e-mail
  service with \<open>e\<close> and \<open>c\<close> resolves; whatever goes wrong there is caught and
  rethrown as one error. The entry is stored before the e-mail is sent.
\<close>

definition sendPasswordResetCode ::
  "firebase_service \<Rightarrow> time \<Rightarrow> real \<Rightarrow> (string \<Rightarrow> string \<Rightarrow> bool) \<Rightarrow> string
     \<Rightarrow> (error + unit) \<times> firebase_service" where
  "sendPasswordResetCode this now u emailService email =
     (let c = toString (code_number u);
          ex = now + 10 * 60 * 1000;
          this' = this\<lparr>resetCodes := (resetCodes this)(email \<mapsto> \<lparr>code = c, expires = ex\<rparr>)\<rparr>
      in if emailService email c then (Inr (), this') else (Inl SendFailed, this'))"

text \<open>\<^verbatim>\<open>verifyPasswordResetCode(email, code)\<close>, at time \<open>now\<close>.\<close>

definition verifyPasswordResetCode ::
  "firebase_service \<Rightarrow> time \<Rightarrow> string \<Rightarrow> string \<Rightarrow> bool \<times> firebase_service" where
  "verifyPasswordResetCode this now email c =
     (case resetCodes this email of
        None \<Rightarrow> (False, this)
      | Some storedData \<Rightarrow>
          if now > expires storedData
          then (False, this\<lparr>resetCodes := (resetCodes this)(email := None)\<rparr>)
          else (code storedData = c, this))"

text \<open>
  \<^verbatim>\<open>getUserByEmail(email)\<close>: \<open>None\<close> is \<^verbatim>\<open>null\<close>; only the rejection with
  code \<^verbatim>\<open>auth/user-not-found\<close> is turned into \<^verbatim>\<open>null\<close>.
\<close>

definition getUserByEmail :: "firebase_service \<Rightarrow> string \<Rightarrow> error + user_record option" where
  "getUserByEmail this email =
     (case auth_getUserByEmail this email of
        AuthUserNotFound \<Rightarrow> Inr None
      | AuthRejected \<Rightarrow> Inl LookupRejected
      | AuthUser u \<Rightarrow>
          (case db_users this u of
             DocRejected \<Rightarrow> Inl LookupRejected
           | DocMissing \<Rightarrow> Inr None
           | DocData d \<Rightarrow> Inr (Some d)))"

text \<open>
  \<^verbatim>\<open>resetPassword(email, code, newPassword)\<close>, the verification inside it running
  at time \<open>now\<close>. The entry is deleted only after \<^verbatim>\<open>auth.updateUser\<close> has resolved.
\<close>

definition resetPassword ::
  "firebase_service \<Rightarrow> time \<Rightarrow> string \<Rightarrow> string \<Rightarrow> string \<Rightarrow> (error + unit) \<times> firebase_service" where
  "resetPassword this now email c newPassword =
     (let (isValidCode, this1) = verifyPasswordResetCode this now email c
      in if \<not> isValidCode then (Inl InvalidOrExpiredCode, this1)
         else (case getUserByEmail this1 email of
                 Inl err \<Rightarrow> (Inl err, this1)
               | Inr None \<Rightarrow> (Inl UserNotFound, this1)
               | Inr (Some user) \<Rightarrow>
                   if auth_updateUser this1 (uid user) newPassword
                   then (Inr (), this1\<lparr>resetCodes := (resetCodes this1)(email := None)\<rparr>)
                   else (Inl UpdateRejected, this1)))"

text \<open>Verifying the same code at each time of a list, in order.\<close>

fun verify_repeatedly ::
  "firebase_service \<Rightarrow> time list \<Rightarrow> string \<Rightarrow> string \<Rightarrow> bool list \<times> firebase_service" where
  "verify_repeatedly this [] email c = ([], this)"
| "verify_repeatedly this (t # ts) email c =
     (let (b, this1) = verifyPasswordResetCode this t email c;
          (bs, this2) = verify_repeatedly this1 ts email c
      in (b # bs, this2))"

subsection \<open>Two service objects to compute with\<close>

text \<open>A service that has just started: no account is known and \<^verbatim>\<open>resetCodes\<close> is empty.\<close>

definition fresh_service :: firebase_service where
  "fresh_service =
     \<lparr>auth_getUserByEmail = (\<lambda>e. AuthUserNotFound),
      auth_updateUser = (\<lambda>u p. False),
      db_users = (\<lambda>u. DocMissing),
      resetCodes = Map.empty\<rparr>"

text \<open>
  A service with one account, whose platform accepts passwords of six characters or
  more, and with one code outstanding for that account.
\<close>

definition demo_service :: firebase_service where
  "demo_service =
     \<lparr>auth_getUserByEmail = (\<lambda>e. if e = ''a@x.com'' then AuthUser ''u1'' else AuthUserNotFound),
      auth_updateUser = (\<lambda>u p. u = ''u1'' \<and> 6 \<le> length p),
      db_users = (\<lambda>u. if u = ''u1''
                     then DocData \<lparr>uid = ''u1'', username = ''a'', userEmail = ''a@x.com''\<rparr>
                     else DocMissing),
      resetCodes = [''a@x.com'' \<mapsto> \<lparr>code = ''483920'', expires = 600000\<rparr>]\<rparr>"

section \<open>Rounding to a double\<close>

lemma binary_exponent_eq: "0 < x \<Longrightarrow> binary_exponent x = \<lfloor>log 2 x\<rfloor>"
proof (induction x rule: binary_exponent.induct)
  case (1 x)
  consider "2 \<le> x" | "x < 1" | "1 \<le> x" "x < 2" by linarith
  then show ?case
  proof cases
    case 1
    have "log 2 (x / 2) = log 2 x - 1" using "1.prems" by (simp add: log_divide)
    then have "\<lfloor>log 2 (x / 2)\<rfloor> = \<lfloor>log 2 x\<rfloor> - 1" by linarith
    moreover have "binary_exponent (x / 2) = \<lfloor>log 2 (x / 2)\<rfloor>"
      using 1 "1.prems" by (intro "1.IH"(1)) simp_all
    ultimately show ?thesis
      using 1 "1.prems" by (subst binary_exponent.simps) simp
  next
    case 2
    have "log 2 (2 * x) = log 2 x + 1" using "1.prems" by (simp add: log_mult)
    then have "\<lfloor>log 2 (2 * x)\<rfloor> = \<lfloor>log 2 x\<rfloor> + 1" by linarith
    moreover have "binary_exponent (2 * x) = \<lfloor>log 2 (2 * x)\<rfloor>"
      using 2 "1.prems" by (intro "1.IH"(2)) simp_all
    ultimately show ?thesis
      using 2 "1.prems" by (subst binary_exponent.simps) simp
  next
    case 3
    then have "\<lfloor>log 2 x\<rfloor> = 0"
      by (simp add: floor_log_eq_powr_iff)
    then show ?thesis
      using 3 by (subst binary_exponent.simps) simp
  qed
qed

lemma round_half_even_of_int: "round_half_even (of_int k) = k"
  by (simp add: round_half_even_def)

lemma round_half_even_le:
  assumes "r \<le> of_int k"
  shows "round_half_even r \<le> k"
proof (cases "r = of_int k")
  case True
  then show ?thesis by (simp add: round_half_even_of_int)
next
  case False
  with assms have "r < of_int k" by simp
  then have "\<lfloor>r\<rfloor> < k" by linarith
  then show ?thesis by (simp add: round_half_even_def Let_def)
qed

lemma round_half_even_ge:
  assumes "of_int k \<le> r"
  shows "k \<le> round_half_even r"
proof -
  have "k \<le> \<lfloor>r\<rfloor>" using assms by linarith
  then show ?thesis by (simp add: round_half_even_def Let_def)
qed

lemma round_half_even_below_half:
  assumes "r < of_int k + 1 / 2"
  shows "round_half_even r \<le> k"
proof (cases "\<lfloor>r\<rfloor> < k")
  case True
  then show ?thesis by (simp add: round_half_even_def Let_def)
next
  case False
  have "\<lfloor>r\<rfloor> \<le> k" using assms by linarith
  with False have fk: "\<lfloor>r\<rfloor> = k" by simp
  then have "r - of_int \<lfloor>r\<rfloor> < 1 / 2" using assms by simp
  then show ?thesis using fk by (simp add: round_half_even_def Let_def)
qed

lemma ulp_pos: "0 < ulp x"
  by (simp add: ulp_def)

lemma fl_multiple:
  assumes "x = of_int k * ulp x"
  shows "fl x = x"
proof -
  have "x / ulp x = of_int k"
    using assms ulp_pos [of x] by (simp add: field_simps)
  then show ?thesis
    using assms by (simp add: fl_def round_half_even_of_int)
qed

lemma fl_le:
  assumes "x \<le> of_int k * ulp x"
  shows "fl x \<le> of_int k * ulp x"
proof (cases "x = 0")
  case True
  then show ?thesis using assms by (simp add: fl_def)
next
  case False
  have "x / ulp x \<le> of_int k"
    using assms ulp_pos [of x] by (simp add: field_simps)
  then have "round_half_even (x / ulp x) \<le> k" by (rule round_half_even_le)
  then have "of_int (round_half_even (x / ulp x)) * ulp x \<le> of_int k * ulp x"
    using ulp_pos [of x] by simp
  then show ?thesis using False by (simp add: fl_def)
qed

lemma fl_ge:
  assumes "of_int k * ulp x \<le> x"
  shows "of_int k * ulp x \<le> fl x"
proof (cases "x = 0")
  case True
  then show ?thesis using assms by (simp add: fl_def)
next
  case False
  have "of_int k \<le> x / ulp x"
    using assms ulp_pos [of x] by (simp add: field_simps)
  then have "k \<le> round_half_even (x / ulp x)" by (rule round_half_even_ge)
  then have "of_int k * ulp x \<le> of_int (round_half_even (x / ulp x)) * ulp x"
    using ulp_pos [of x] by simp
  then show ?thesis using False by (simp add: fl_def)
qed

lemma fl_below_half:
  assumes "x < (of_int k + 1 / 2) * ulp x" "x \<noteq> 0"
  shows "fl x \<le> of_int k * ulp x"
proof -
  have "x / ulp x < of_int k + 1 / 2"
    using assms ulp_pos [of x] by (simp add: field_simps)
  then have "round_half_even (x / ulp x) \<le> k" by (rule round_half_even_below_half)
  then have "of_int (round_half_even (x / ulp x)) * ulp x \<le> of_int k * ulp x"
    using ulp_pos [of x] by simp
  then show ?thesis using assms(2) by (simp add: fl_def)
qed

lemma ulp_exp_eq:
  assumes "2 powr of_int k \<le> \<bar>x\<bar>" "\<bar>x\<bar> < 2 powr of_int (k + 1)" "- 1022 \<le> k"
  shows "ulp_exp x = k - 52"
proof -
  have "0 < \<bar>x\<bar>" using assms(1) by (smt (verit) powr_gt_zero)
  then have "binary_exponent \<bar>x\<bar> = k"
    using assms by (simp add: binary_exponent_eq floor_log_eq_powr_iff)
  then show ?thesis using assms(3) by (simp add: ulp_exp_def)
qed

lemma ulp_100000: "ulp 100000 = 1 / 2 ^ 36"
proof -
  have "ulp_exp 100000 = - 36"
    using ulp_exp_eq [of 16 100000] by simp
  then show ?thesis by (simp add: ulp_def powr_minus field_simps)
qed

lemma fl_100000: "fl 100000 = 100000"
  using fl_multiple [of 100000 "100000 * 2 ^ 36"] by (simp add: ulp_100000)

lemma fl_0: "fl 0 = 0"
  by (simp add: fl_def)

lemma code_number_0: "code_number 0 = 100000"
  by (simp add: code_number_def fl_0 fl_100000)

lemma ulp_exp_le:
  assumes "x \<noteq> 0" "\<bar>x\<bar> < 2 powr of_int (k + 1)" "- 1022 \<le> k"
  shows "ulp_exp x \<le> k - 52"
proof -
  have "log 2 \<bar>x\<bar> < of_int (k + 1)"
    using assms(1,2) by (simp add: log_less_iff)
  then have "\<lfloor>log 2 \<bar>x\<bar>\<rfloor> < k + 1" by linarith
  then have "binary_exponent \<bar>x\<bar> < k + 1"
    using assms(1) by (simp add: binary_exponent_eq)
  then show ?thesis using assms(3) by (simp add: ulp_exp_def)
qed

lemma grid_refine:
  assumes "ulp_exp x \<le> t"
  shows "of_int k * 2 powr of_int t = of_int (k * 2 ^ nat (t - ulp_exp x)) * ulp x"
proof -
  have "(2::real) powr of_int t = 2 powr (of_int (t - ulp_exp x) + of_int (ulp_exp x))"
    by simp
  also have "\<dots> = 2 powr of_int (t - ulp_exp x) * ulp x"
    unfolding ulp_def by (rule powr_add)
  also have "2 powr of_int (t - ulp_exp x) = (2::real) ^ nat (t - ulp_exp x)"
    using assms by (simp add: powr_realpow [symmetric])
  finally show ?thesis by simp
qed

lemma fl_le_grid:
  assumes "x \<le> of_int k * 2 powr of_int t" "ulp_exp x \<le> t"
  shows "fl x \<le> of_int k * 2 powr of_int t"
  using fl_le [of x "k * 2 ^ nat (t - ulp_exp x)"] assms
  by (simp only: grid_refine [OF assms(2)])

lemma fl_ge_grid:
  assumes "of_int k * 2 powr of_int t \<le> x" "ulp_exp x \<le> t"
  shows "of_int k * 2 powr of_int t \<le> fl x"
  using fl_ge [of "k * 2 ^ nat (t - ulp_exp x)" x] assms
  by (simp only: grid_refine [OF assms(2)])

lemma random_outcome_le:
  assumes "random_outcome u"
  shows "u \<le> 1 - 1 / 2 ^ 53"
proof (cases "u < 1 / 2")
  case True
  then show ?thesis by simp
next
  case False
  from assms have u: "fl u = u" "u < 1"
    by (simp_all add: random_outcome_def is_double_def)
  have "ulp_exp u = - 1 - 52"
    using False u(2) by (intro ulp_exp_eq) (simp_all add: powr_minus)
  then have ulp: "ulp u = 1 / 2 ^ 53"
    by (simp add: ulp_def powr_minus field_simps)
  define k where "k = round_half_even (u / ulp u)"
  have "u \<noteq> 0" using False by simp
  then have uk: "u = of_int k / 2 ^ 53"
    using u(1) by (simp add: fl_def k_def ulp)
  then have "real_of_int k < 2 ^ 53" using u(2) by (simp add: field_simps)
  then have "real_of_int k < real_of_int (2 ^ 53)" by simp
  then have "k < 2 ^ 53" by (simp only: of_int_less_iff)
  then have "k \<le> 2 ^ 53 - 1" by simp
  then have "real_of_int k \<le> real_of_int (2 ^ 53 - 1)" by (simp only: of_int_le_iff)
  then show ?thesis by (simp add: uk field_simps)
qed

lemma fl_nonneg:
  assumes "0 \<le> x"
  shows "0 \<le> fl x"
  using fl_ge [of 0 x] assms by simp

lemma fl_product_le:
  assumes "0 \<le> x" "x \<le> 900000 - 900000 / 2 ^ 53"
  shows "fl x \<le> 900000 - 1 / 2 ^ 33"
proof -
  consider "x = 0" | "0 < x" "x < 2 ^ 19" | "2 ^ 19 \<le> x" using assms(1) by linarith
  then show ?thesis
  proof cases
    case 1
    then show ?thesis by (simp add: fl_0)
  next
    case 2
    then have "ulp_exp x \<le> 18 - 52"
      by (intro ulp_exp_le) simp_all
    then have "fl x \<le> of_int (2 ^ 19) * 2 powr of_int 0"
      using 2 by (intro fl_le_grid) simp_all
    then show ?thesis by simp
  next
    case 3
    have "ulp_exp x = 19 - 52"
      using 3 assms(2) by (intro ulp_exp_eq) simp_all
    then have ulp: "ulp x = 1 / 2 ^ 33"
      by (simp add: ulp_def powr_minus field_simps)
    have "x < (of_int (900000 * 2 ^ 33 - 1) + 1 / 2) * ulp x"
      using assms(2) by (simp add: ulp field_simps)
    moreover have "x \<noteq> 0" using 3 by simp
    ultimately have "fl x \<le> of_int (900000 * 2 ^ 33 - 1) * ulp x"
      by (rule fl_below_half)
    then show ?thesis by (simp add: ulp field_simps)
  qed
qed

lemma fl_sum_bounds:
  assumes "0 \<le> p" "p \<le> 900000 - 1 / 2 ^ 33"
  shows "100000 \<le> fl (100000 + p)" "fl (100000 + p) < 1000000"
proof -
  let ?y = "100000 + p"
  have "ulp_exp ?y \<le> 19 - 52"
    using assms by (intro ulp_exp_le) simp_all
  then have t: "ulp_exp ?y \<le> - 33" by simp
  have "of_int 100000 * 2 powr of_int 0 \<le> fl ?y"
    using assms(1) t by (intro fl_ge_grid) simp_all
  then show "100000 \<le> fl ?y" by simp
  have "fl ?y \<le> of_int (1000000 * 2 ^ 33 - 1) * 2 powr of_int (- 33)"
    using assms(2) t by (intro fl_le_grid) (simp_all add: powr_minus field_simps)
  then show "fl ?y < 1000000" by (simp add: powr_minus field_simps)
qed

lemma code_number_range:
  assumes "random_outcome u"
  shows "100000 \<le> code_number u" "code_number u \<le> 999999"
proof -
  have u: "0 \<le> u" "u \<le> 1 - 1 / 2 ^ 53"
    using assms random_outcome_le [OF assms] by (simp_all add: random_outcome_def)
  let ?p = "fl (u * 900000)"
  have "0 \<le> ?p" using u(1) by (intro fl_nonneg) simp
  moreover have "?p \<le> 900000 - 1 / 2 ^ 33"
    using u by (intro fl_product_le) (simp_all add: field_simps)
  ultimately have b: "100000 \<le> fl (100000 + ?p)" "fl (100000 + ?p) < 1000000"
    by (rule fl_sum_bounds)+
  show "100000 \<le> code_number u"
    using b(1) unfolding code_number_def by linarith
  show "code_number u \<le> 999999"
    using b(2) unfolding code_number_def by linarith
qed

section \<open>Decimal digits\<close>

lemma digit_value_digit_char: "d < 10 \<Longrightarrow> digit_value (digit_char d) = d"
proof -
  assume "d < 10"
  then have "d \<in> set [0, 1, 2, 3, 4, 5, 6, 7, 8, 9]" by (simp, arith)
  moreover have "\<forall>d \<in> set [0, 1, 2, 3, 4, 5, 6, 7, 8, 9]. digit_value (digit_char d) = d"
    by (simp add: digit_value_def digit_char_def)
  ultimately show ?thesis by blast
qed

lemma digit_char_in: "d < 10 \<Longrightarrow> digit_char d \<in> set ''0123456789''"
  unfolding digit_char_def by (rule nth_mem) simp

lemma digits_value_snoc: "digits_value (s @ [c]) = 10 * digits_value s + digit_value c"
  by (simp add: digits_value_def)

lemma digits_value_show_nat: "digits_value (show_nat n) = n"
proof (induction n rule: show_nat.induct)
  case (1 n)
  show ?case
  proof (cases "n < 10")
    case True
    then show ?thesis
      by (subst show_nat.simps) (simp add: digits_value_def digit_value_digit_char)
  next
    case False
    then have "digits_value (show_nat (n div 10)) = n div 10" by (rule "1.IH")
    then show ?thesis
      using False
      by (subst show_nat.simps) (simp add: digits_value_snoc digit_value_digit_char)
  qed
qed

lemma set_show_nat: "set (show_nat n) \<subseteq> set ''0123456789''"
proof (induction n rule: show_nat.induct)
  case (1 n)
  show ?case
  proof (cases "n < 10")
    case True
    then show ?thesis
      using digit_char_in [of n] by (subst show_nat.simps) simp
  next
    case False
    then have "set (show_nat (n div 10)) \<subseteq> set ''0123456789''" by (rule "1.IH")
    moreover have "digit_char (n mod 10) \<in> set ''0123456789''"
      by (rule digit_char_in) simp
    ultimately show ?thesis
      using False by (subst show_nat.simps) simp
  qed
qed

lemma length_show_nat_step:
  "10 \<le> n \<Longrightarrow> length (show_nat n) = Suc (length (show_nat (n div 10)))"
  by (subst show_nat.simps) simp

lemma length_show_nat_digit: "n < 10 \<Longrightarrow> length (show_nat n) = 1"
  by (subst show_nat.simps) simp

lemma length_show_nat_6:
  assumes "100000 \<le> n" "n \<le> 999999"
  shows "length (show_nat n) = 6"
proof -
  have "length (show_nat n) = Suc (length (show_nat (n div 10)))"
    using assms by (intro length_show_nat_step) simp
  also have "length (show_nat (n div 10)) = Suc (length (show_nat (n div 10 div 10)))"
    using assms by (intro length_show_nat_step) simp
  also have "length (show_nat (n div 10 div 10)) = Suc (length (show_nat (n div 10 div 10 div 10)))"
    using assms by (intro length_show_nat_step) simp
  also have "length (show_nat (n div 10 div 10 div 10))
      = Suc (length (show_nat (n div 10 div 10 div 10 div 10)))"
    using assms by (intro length_show_nat_step) simp
  also have "length (show_nat (n div 10 div 10 div 10 div 10))
      = Suc (length (show_nat (n div 10 div 10 div 10 div 10 div 10)))"
    using assms by (intro length_show_nat_step) simp
  also have "length (show_nat (n div 10 div 10 div 10 div 10 div 10)) = 1"
    using assms by (intro length_show_nat_digit) simp
  finally show ?thesis by simp
qed

lemma hd_show_nat: "0 < n \<Longrightarrow> show_nat n \<noteq> [] \<and> hd (show_nat n) \<noteq> CHR ''0''"
proof (induction n rule: show_nat.induct)
  case (1 n)
  show ?case
  proof (cases "n < 10")
    case True
    with "1.prems" have "n \<in> set [1, 2, 3, 4, 5, 6, 7, 8, 9]" by (simp, arith)
    moreover have "\<forall>n \<in> set [1, 2, 3, 4, 5, 6, 7, 8, 9].
        show_nat n \<noteq> [] \<and> hd (show_nat n) \<noteq> CHR ''0''"
      by (simp add: show_nat.simps digit_char_def)
    ultimately show ?thesis by blast
  next
    case False
    then have "0 < n div 10" by simp
    with False have "show_nat (n div 10) \<noteq> [] \<and> hd (show_nat (n div 10)) \<noteq> CHR ''0''"
      by (rule "1.IH")
    then show ?thesis
      using False by (subst (1 2) show_nat.simps) simp
  qed
qed

section \<open>The ends of the range of codes\<close>

lemma random_outcome_max: "random_outcome (1 - 1 / 2 ^ 53)"
proof -
  let ?u = "1 - 1 / 2 ^ 53 :: real"
  have "ulp_exp ?u = - 1 - 52"
    by (intro ulp_exp_eq) (simp_all add: powr_minus)
  then have ulp: "ulp ?u = 1 / 2 ^ 53"
    by (simp add: ulp_def powr_minus field_simps)
  have "fl ?u = ?u"
    by (rule fl_multiple [of _ "2 ^ 53 - 1"]) (simp only: ulp, simp)
  then show ?thesis by (simp add: random_outcome_def is_double_def)
qed

lemma code_number_max: "code_number (1 - 1 / 2 ^ 53) = 999999"
proof -
  let ?x = "(1 - 1 / 2 ^ 53) * 900000 :: real"
  have "ulp_exp ?x = 19 - 52"
    by (intro ulp_exp_eq) simp_all
  then have ulp: "ulp ?x = 1 / 2 ^ 33"
    by (simp add: ulp_def powr_minus field_simps)
  have "fl ?x \<le> of_int (900000 * 2 ^ 33 - 1) * ulp ?x"
    by (rule fl_below_half) (simp only: ulp, simp, simp)
  moreover have "of_int (900000 * 2 ^ 33 - 1) * ulp ?x \<le> fl ?x"
    by (rule fl_ge) (simp only: ulp, simp)
  ultimately have "fl ?x = of_int (900000 * 2 ^ 33 - 1) * ulp ?x"
    by (rule antisym)
  then have "fl ?x = of_int (900000 * 2 ^ 33 - 1) * (1 / 2 ^ 33)"
    by (simp only: ulp)
  also have "\<dots> = 900000 - 1 / 2 ^ 33" by simp
  finally have p: "fl ?x = 900000 - 1 / 2 ^ 33" .
  let ?y = "1000000 - 1 / 2 ^ 33 :: real"
  have "ulp_exp ?y = 19 - 52"
    by (intro ulp_exp_eq) simp_all
  then have ulpy: "ulp ?y = 1 / 2 ^ 33"
    by (simp add: ulp_def powr_minus field_simps)
  have y: "fl ?y = ?y"
    by (rule fl_multiple [of _ "1000000 * 2 ^ 33 - 1"]) (simp only: ulpy, simp)
  have "100000 + fl ?x = ?y" by (simp only: p)
  then have "code_number (1 - 1 / 2 ^ 53) = \<lfloor>?y\<rfloor>"
    by (simp only: code_number_def y)
  also have "\<dots> = 999999" by (rule floor_unique) simp_all
  finally show ?thesis .
qed

lemma random_outcome_0: "random_outcome 0"
  by (simp add: random_outcome_def is_double_def fl_0)

lemma toString_100000: "toString 100000 = ''100000''"
  by (simp add: toString_def show_nat.simps digit_char_def)

lemma toString_999999: "toString 999999 = ''999999''"
  by (simp add: toString_def show_nat.simps digit_char_def)

section \<open>The three operations on the map of codes\<close>

lemma verify_absent:
  "resetCodes this email = None \<Longrightarrow> verifyPasswordResetCode this now email c = (False, this)"
  by (simp add: verifyPasswordResetCode_def)

lemma verify_live:
  "resetCodes this email = Some e \<Longrightarrow> now \<le> expires e \<Longrightarrow>
   verifyPasswordResetCode this now email c = (code e = c, this)"
  by (simp add: verifyPasswordResetCode_def)

lemma verify_expired:
  "resetCodes this email = Some e \<Longrightarrow> expires e < now \<Longrightarrow>
   verifyPasswordResetCode this now email c =
     (False, this\<lparr>resetCodes := (resetCodes this)(email := None)\<rparr>)"
  by (simp add: verifyPasswordResetCode_def)

lemma send_result:
  "sendPasswordResetCode this now u emailService email =
     (if emailService email (toString (code_number u)) then Inr () else Inl SendFailed,
      this\<lparr>resetCodes := (resetCodes this)
         (email \<mapsto> \<lparr>code = toString (code_number u), expires = now + 600000\<rparr>)\<rparr>)"
  by (simp add: sendPasswordResetCode_def Let_def)

lemma resetCodes_send:
  "resetCodes (snd (sendPasswordResetCode this now u emailService email)) =
     (resetCodes this)(email \<mapsto> \<lparr>code = toString (code_number u), expires = now + 600000\<rparr>)"
  by (simp add: send_result)

lemma resetPassword_success:
  assumes "resetPassword this now email c newPassword = (Inr (), this')"
  shows "this' = this\<lparr>resetCodes := (resetCodes this)(email := None)\<rparr>"
    and "\<exists>e. resetCodes this email = Some e \<and> code e = c \<and> now \<le> expires e"
  using assms
  by (auto simp: resetPassword_def verifyPasswordResetCode_def
      split: option.splits if_splits sum.splits)

lemma resetPassword_absent:
  "resetCodes this email = None \<Longrightarrow>
   resetPassword this now email c newPassword = (Inl InvalidOrExpiredCode, this)"
  by (simp add: resetPassword_def verify_absent)

lemma resetPassword_live:
  assumes "resetCodes this email = Some e" "code e = c" "now \<le> expires e"
    and "getUserByEmail this email = Inr (Some user)"
  shows "resetPassword this now email c newPassword =
     (if auth_updateUser this (uid user) newPassword
      then (Inr (), this\<lparr>resetCodes := (resetCodes this)(email := None)\<rparr>)
      else (Inl UpdateRejected, this))"
  using assms by (simp add: resetPassword_def verify_live)

lemma getUserByEmail_demo:
  "getUserByEmail demo_service ''a@x.com'' =
     Inr (Some \<lparr>uid = ''u1'', username = ''a'', userEmail = ''a@x.com''\<rparr>)"
  by (simp add: getUserByEmail_def demo_service_def)

lemma resetCodes_demo:
  "resetCodes demo_service ''a@x.com'' = Some \<lparr>code = ''483920'', expires = 600000\<rparr>"
  by (simp add: demo_service_def)

lemma auth_updateUser_demo: "auth_updateUser demo_service u p \<longleftrightarrow> u = ''u1'' \<and> 6 \<le> length p"
  by (simp add: demo_service_def)

lemma demo_consumed:
  "demo_service\<lparr>resetCodes := (resetCodes demo_service)(''a@x.com'' := None)\<rparr>
     = demo_service\<lparr>resetCodes := Map.empty\<rparr>"
  by (simp add: demo_service_def)

lemma resetPassword_demo:
  "resetPassword demo_service 1000 ''a@x.com'' ''483920'' ''NewPass1!'' =
     (Inr (), demo_service\<lparr>resetCodes := Map.empty\<rparr>)"
  using resetPassword_live [OF resetCodes_demo _ _ getUserByEmail_demo,
      of "''483920''" 1000 "''NewPass1!''"]
  by (simp add: auth_updateUser_demo demo_consumed)

section \<open>Consuming a code\<close>

text \<open>
  Claim C1. Whenever \<^verbatim>\<open>resetPassword(email, code, newPassword)\<close> returns without
  throwing, the map held a code for \<open>email\<close> that matched and had not expired, and
  the entry for \<open>email\<close> is gone afterwards: in the resulting service every later
  \<^verbatim>\<open>verifyPasswordResetCode\<close> for \<open>email\<close> is false, whatever the code and the
  time, and every later \<^verbatim>\<open>resetPassword\<close> for \<open>email\<close> throws
  ``Invalid or expired verification code'', whatever the code and the new password.
\<close>

theorem C1_single_consumption:
  assumes "resetPassword this now email c newPassword = (Inr (), this')"
  shows "(\<exists>e. resetCodes this email = Some e \<and> code e = c \<and> now \<le> expires e)
       \<and> resetCodes this' email = None
       \<and> verifyPasswordResetCode this' now' email c' = (False, this')
       \<and> resetPassword this' now' email c' newPassword' = (Inl InvalidOrExpiredCode, this')"
proof -
  have gone: "resetCodes this' email = None"
    using resetPassword_success(1) [OF assms] by simp
  show ?thesis
    using resetPassword_success(2) [OF assms] gone
    by (simp add: verify_absent resetPassword_absent)
qed

text \<open>
  The account of \<open>demo_service\<close> resets its password with the outstanding code
  \<open>483920\<close>; one second later the same code verifies no more and resets nothing.
\<close>

theorem C1_witness:
  "resetPassword demo_service 1000 ''a@x.com'' ''483920'' ''NewPass1!''
      = (Inr (), demo_service\<lparr>resetCodes := Map.empty\<rparr>)
   \<and> verifyPasswordResetCode (demo_service\<lparr>resetCodes := Map.empty\<rparr>) 2000 ''a@x.com'' ''483920''
      = (False, demo_service\<lparr>resetCodes := Map.empty\<rparr>)
   \<and> resetPassword (demo_service\<lparr>resetCodes := Map.empty\<rparr>) 2000 ''a@x.com'' ''483920'' ''Other2!''
      = (Inl InvalidOrExpiredCode, demo_service\<lparr>resetCodes := Map.empty\<rparr>)"
  using C1_single_consumption [OF resetPassword_demo, of 2000 "''483920''" "''Other2!''"]
    resetPassword_demo
  by simp

section \<open>Issuing at concrete inputs\<close>

lemma send_fresh_0:
  "sendPasswordResetCode fresh_service 0 0 emailService email =
     (if emailService email ''100000'' then Inr () else Inl SendFailed,
      fresh_service\<lparr>resetCodes := [email \<mapsto> \<lparr>code = ''100000'', expires = 600000\<rparr>]\<rparr>)"
  by (simp add: send_result code_number_0 toString_100000) (simp add: fresh_service_def)

lemma verify_after_send:
  "verifyPasswordResetCode (snd (sendPasswordResetCode this T u emailService email)) now email c =
     (if T + 600000 < now
      then (False, (snd (sendPasswordResetCode this T u emailService email))
              \<lparr>resetCodes := (resetCodes this)(email := None)\<rparr>)
      else (toString (code_number u) = c, snd (sendPasswordResetCode this T u emailService email)))"
  by (simp add: verifyPasswordResetCode_def send_result)

section \<open>Expiry\<close>

text \<open>
  A code issued at time \<open>0\<close> still verifies at time \<open>0 + 10 min\<close> exactly: the
  test is \<^verbatim>\<open>new Date() > storedData.expires\<close>, which is false at the expiry time
  itself.
\<close>

theorem C2_counterexample:
  "fst (verifyPasswordResetCode
          (snd (sendPasswordResetCode fresh_service 0 0 (\<lambda>e c. True) ''a@x.com''))
          (0 + 10 * 60 * 1000) ''a@x.com'' ''100000'') = True"
  by (simp add: send_fresh_0 verifyPasswordResetCode_def)

text \<open>
  Claim C2, as the code has it. After \<^verbatim>\<open>sendPasswordResetCode(email)\<close> at time
  \<open>T\<close> the stored expiry is \<open>T + 10 min\<close>. At every time up to and including
  \<open>T + 10 min\<close> (so at \<open>T + 10 min - 1 s\<close>) \<^verbatim>\<open>verifyPasswordResetCode\<close>
  returns true for exactly the generated code; at every time strictly after
  \<open>T + 10 min\<close> it returns false for every code.
\<close>

theorem C2_expiry_boundary:
  assumes "this' = snd (sendPasswordResetCode this T u emailService email)"
  shows "map_option expires (resetCodes this' email) = Some (T + 10 * 60 * 1000)
       \<and> (now \<le> T + 10 * 60 * 1000 \<longrightarrow>
            fst (verifyPasswordResetCode this' now email c) = (c = toString (code_number u)))
       \<and> (T + 10 * 60 * 1000 < now \<longrightarrow> fst (verifyPasswordResetCode this' now email c) = False)"
  unfolding assms by (auto simp: verify_after_send resetCodes_send)

text \<open>Issued at \<open>0\<close>: true at 599 s, false at 600 s and one millisecond.\<close>

theorem C2_witness:
  "fst (verifyPasswordResetCode
          (snd (sendPasswordResetCode fresh_service 0 0 (\<lambda>e c. True) ''a@x.com''))
          599000 ''a@x.com'' ''100000'') = True
   \<and> fst (verifyPasswordResetCode
          (snd (sendPasswordResetCode fresh_service 0 0 (\<lambda>e c. True) ''a@x.com''))
          600001 ''a@x.com'' ''100000'') = False"
  using C2_expiry_boundary [OF refl, of fresh_service 0 0 "\<lambda>e c. True" "''a@x.com''" 599000 "''100000''"]
    C2_expiry_boundary [OF refl, of fresh_service 0 0 "\<lambda>e c. True" "''a@x.com''" 600001 "''100000''"]
  by (simp add: code_number_0 toString_100000)

section \<open>Issuing again\<close>

text \<open>
  When the second draw equals the first, the second code is the first code, and the
  first code verifies after the second issue.
\<close>

theorem C3_counterexample:
  "fst (verifyPasswordResetCode
          (snd (sendPasswordResetCode
                  (snd (sendPasswordResetCode fresh_service 0 0 (\<lambda>e c. True) ''a@x.com''))
                  1000 0 (\<lambda>e c. True) ''a@x.com''))
          2000 ''a@x.com'' ''100000'') = True"
  by (simp add: verify_after_send code_number_0 toString_100000)

text \<open>
  Claim C3, as the code has it. If \<^verbatim>\<open>sendPasswordResetCode(email)\<close> is called
  twice in succession and the second call generates a code different from the first,
  then after the second call \<^verbatim>\<open>verifyPasswordResetCode(email, code1)\<close> is false at
  every time, also before the first code's own expiry. This does not depend on whether
  either e-mail was delivered.
\<close>

theorem C3_reissue_supersedes:
  assumes "this1 = snd (sendPasswordResetCode this T1 u1 emailService1 email)"
    and "this2 = snd (sendPasswordResetCode this1 T2 u2 emailService2 email)"
    and "toString (code_number u2) \<noteq> toString (code_number u1)"
  shows "fst (verifyPasswordResetCode this2 now email (toString (code_number u1))) = False"
  unfolding assms(1,2) using assms(3) by (simp add: verify_after_send)

text \<open>
  Draws \<open>0\<close> and \<open>1 - 2^-53\<close> give the codes \<open>100000\<close> and \<open>999999\<close>;
  after the second issue only \<open>999999\<close> verifies.
\<close>

theorem C3_witness:
  "fst (verifyPasswordResetCode
          (snd (sendPasswordResetCode
                  (snd (sendPasswordResetCode fresh_service 0 0 (\<lambda>e c. True) ''a@x.com''))
                  1000 (1 - 1 / 2 ^ 53) (\<lambda>e c. True) ''a@x.com''))
          2000 ''a@x.com'' ''100000'') = False
   \<and> fst (verifyPasswordResetCode
          (snd (sendPasswordResetCode
                  (snd (sendPasswordResetCode fresh_service 0 0 (\<lambda>e c. True) ''a@x.com''))
                  1000 (1 - 1 / 2 ^ 53) (\<lambda>e c. True) ''a@x.com''))
          2000 ''a@x.com'' ''999999'') = True"
proof -
  have "toString (code_number (1 - 1 / 2 ^ 53)) \<noteq> toString (code_number 0)"
    by (simp only: code_number_max code_number_0 toString_100000 toString_999999) simp
  from C3_reissue_supersedes [OF refl refl this,
      of fresh_service 0 "\<lambda>e c. True" "''a@x.com''" 1000 "\<lambda>e c. True" 2000]
  have "fst (verifyPasswordResetCode
          (snd (sendPasswordResetCode
                  (snd (sendPasswordResetCode fresh_service 0 0 (\<lambda>e c. True) ''a@x.com''))
                  1000 (1 - 1 / 2 ^ 53) (\<lambda>e c. True) ''a@x.com''))
          2000 ''a@x.com'' ''100000'') = False"
    by (simp only: code_number_0 toString_100000)
  moreover have "fst (verifyPasswordResetCode
          (snd (sendPasswordResetCode
                  (snd (sendPasswordResetCode fresh_service 0 0 (\<lambda>e c. True) ''a@x.com''))
                  1000 (1 - 1 / 2 ^ 53) (\<lambda>e c. True) ''a@x.com''))
          2000 ''a@x.com'' ''999999'') = True"
    by (simp only: verify_after_send code_number_max toString_999999) simp
  ultimately show ?thesis by (rule conjI)
qed

section \<open>Verifying without consuming\<close>

text \<open>
  Claim C4. With an entry for \<open>email\<close> that holds the code \<open>c\<close>,
  \<^verbatim>\<open>verifyPasswordResetCode(email, c)\<close> called at any number of times, none of
  them after the expiry, returns true every time and leaves the service, and so the map
  of codes, as it was.
\<close>

theorem C4_verify_idempotent:
  assumes "resetCodes this email = Some e" and "code e = c"
    and "\<forall>t \<in> set ts. t \<le> expires e"
  shows "verify_repeatedly this ts email c = (replicate (length ts) True, this)"
  using assms(3)
proof (induction ts)
  case Nil
  show ?case by simp
next
  case (Cons t ts)
  then have "t \<le> expires e" by simp
  then have "verifyPasswordResetCode this t email c = (True, this)"
    using assms(1,2) by (simp add: verify_live)
  moreover have "verify_repeatedly this ts email c = (replicate (length ts) True, this)"
    using Cons by simp
  ultimately show ?case by simp
qed

text \<open>Three verifications of the outstanding code of \<open>demo_service\<close>.\<close>

theorem C4_witness:
  "verify_repeatedly demo_service [1000, 2000, 600000] ''a@x.com'' ''483920''
     = ([True, True, True], demo_service)"
  using C4_verify_idempotent [OF resetCodes_demo, of "''483920''" "[1000, 2000, 600000]"]
  by simp

section \<open>A rejected password\<close>

text \<open>
  Claim C5. With a live, matching code and an account for \<open>email\<close>, if
  \<^verbatim>\<open>auth.updateUser\<close> rejects the new password then \<^verbatim>\<open>resetPassword\<close> throws
  that rejection and leaves the service unchanged, the entry for \<open>email\<close> included;
  a second \<^verbatim>\<open>resetPassword\<close> with the same code and a password the platform
  accepts, not after the expiry, succeeds.
\<close>

theorem C5_failed_update_keeps_entry:
  assumes "resetCodes this email = Some e" and "code e = c" and "now \<le> expires e"
    and "getUserByEmail this email = Inr (Some user)"
    and "\<not> auth_updateUser this (uid user) badCred"
    and "auth_updateUser this (uid user) goodCred" and "now' \<le> expires e"
  shows "resetPassword this now email c badCred = (Inl UpdateRejected, this)
       \<and> resetCodes (snd (resetPassword this now email c badCred)) email = Some e
       \<and> fst (resetPassword (snd (resetPassword this now email c badCred)) now' email c goodCred)
           = Inr ()"
proof -
  have bad: "resetPassword this now email c badCred = (Inl UpdateRejected, this)"
    using assms(5) by (simp add: resetPassword_live [OF assms(1-4)])
  have "fst (resetPassword this now' email c goodCred) = Inr ()"
    using assms(6) by (simp add: resetPassword_live [OF assms(1,2,7,4)])
  then show ?thesis using assms(1) by (simp add: bad)
qed

text \<open>
  The platform of \<open>demo_service\<close> rejects the three character password and accepts
  the nine character one a second later.
\<close>

theorem C5_witness:
  "resetPassword demo_service 1000 ''a@x.com'' ''483920'' ''abc'' = (Inl UpdateRejected, demo_service)
   \<and> fst (resetPassword (snd (resetPassword demo_service 1000 ''a@x.com'' ''483920'' ''abc''))
            2000 ''a@x.com'' ''483920'' ''NewPass1!'') = Inr ()"
  using C5_failed_update_keeps_entry [OF resetCodes_demo _ _ getUserByEmail_demo,
      of "''483920''" 1000 "''abc''" "''NewPass1!''" 2000]
  by (clarsimp simp: auth_updateUser_demo)

section \<open>The recipient is not checked\<close>

text \<open>
  For the empty e-mail address the call succeeds when the e-mail service resolves, and
  the entry is stored under the empty key whether the e-mail service resolves or not.
\<close>

theorem C7_counterexample:
  "fst (sendPasswordResetCode fresh_service 0 0 (\<lambda>e c. True) []) = Inr ()
   \<and> resetCodes (snd (sendPasswordResetCode fresh_service 0 0 (\<lambda>e c. True) [])) []
       = Some \<lparr>code = ''100000'', expires = 600000\<rparr>
   \<and> resetCodes (snd (sendPasswordResetCode fresh_service 0 0 (\<lambda>e c. False) [])) []
       = Some \<lparr>code = ''100000'', expires = 600000\<rparr>"
  by (simp add: send_fresh_0)

text \<open>
  Claim C7, as the code has it. \<^verbatim>\<open>sendPasswordResetCode\<close> does not inspect its
  argument: for every string, the empty one included, it stores an entry with the
  generated code and the expiry ten minutes ahead, and it throws (``Failed to send
  password reset code'') exactly when the e-mail service fails.
\<close>

theorem C7_no_recipient_check:
  "resetCodes (snd (sendPasswordResetCode this now u emailService email)) email
     = Some \<lparr>code = toString (code_number u), expires = now + 10 * 60 * 1000\<rparr>
   \<and> fst (sendPasswordResetCode this now u emailService email)
     = (if emailService email (toString (code_number u)) then Inr () else Inl SendFailed)"
  by (simp add: send_result)

section \<open>A failed delivery\<close>

text \<open>
  Claim C8. If the e-mail service fails, \<^verbatim>\<open>sendPasswordResetCode\<close> throws
  ``Failed to send password reset code'' and the entry it stored stays: up to the expiry
  \<^verbatim>\<open>verifyPasswordResetCode\<close> with the generated code returns true and changes
  nothing.
\<close>

theorem C8_delivery_failure:
  assumes "\<not> emailService email (toString (code_number u))"
    and "this' = snd (sendPasswordResetCode this T u emailService email)"
    and "now \<le> T + 10 * 60 * 1000"
  shows "fst (sendPasswordResetCode this T u emailService email) = Inl SendFailed
       \<and> resetCodes this' email = Some \<lparr>code = toString (code_number u), expires = T + 10 * 60 * 1000\<rparr>
       \<and> verifyPasswordResetCode this' now email (toString (code_number u)) = (True, this')"
  unfolding assms(2) using assms(1,3)
  by (simp add: verify_after_send) (simp add: send_result)

text \<open>An e-mail service that always fails, and the code \<open>100000\<close> verified at 599 s.\<close>

theorem C8_witness:
  "fst (sendPasswordResetCode fresh_service 0 0 (\<lambda>e c. False) ''a@x.com'') = Inl SendFailed
   \<and> fst (verifyPasswordResetCode
            (snd (sendPasswordResetCode fresh_service 0 0 (\<lambda>e c. False) ''a@x.com''))
            599000 ''a@x.com'' ''100000'') = True"
  using C8_delivery_failure [OF _ refl, of "\<lambda>e c. False" "''a@x.com''" 0 599000 0 fresh_service]
  by (simp add: code_number_0 toString_100000)

section \<open>Independence of the accounts\<close>

text \<open>
  Claim C9. Two services that hold the same map of codes, and differ in any way in what
  the platform knows about accounts, give the same result and the same map of codes for
  \<^verbatim>\<open>sendPasswordResetCode\<close> and for \<^verbatim>\<open>verifyPasswordResetCode\<close>, all other
  arguments being equal.
\<close>

theorem C9_account_independence:
  assumes "resetCodes this1 = resetCodes this2"
  shows "fst (sendPasswordResetCode this1 now u emailService email)
           = fst (sendPasswordResetCode this2 now u emailService email)
       \<and> resetCodes (snd (sendPasswordResetCode this1 now u emailService email))
           = resetCodes (snd (sendPasswordResetCode this2 now u emailService email))
       \<and> fst (verifyPasswordResetCode this1 now email c)
           = fst (verifyPasswordResetCode this2 now email c)
       \<and> resetCodes (snd (verifyPasswordResetCode this1 now email c))
           = resetCodes (snd (verifyPasswordResetCode this2 now email c))"
  using assms
  by (simp add: send_result verifyPasswordResetCode_def split: option.splits)

text \<open>\<open>demo_service\<close>, and the same service with its account removed.\<close>

theorem C9_witness:
  "getUserByEmail demo_service ''a@x.com'' \<noteq> Inr None
   \<and> getUserByEmail (demo_service\<lparr>auth_getUserByEmail := \<lambda>e. AuthUserNotFound\<rparr>) ''a@x.com'' = Inr None
   \<and> fst (sendPasswordResetCode demo_service 1000 0 (\<lambda>e c. True) ''a@x.com'')
       = fst (sendPasswordResetCode (demo_service\<lparr>auth_getUserByEmail := \<lambda>e. AuthUserNotFound\<rparr>)
                1000 0 (\<lambda>e c. True) ''a@x.com'')
   \<and> verifyPasswordResetCode demo_service 1000 ''a@x.com'' ''483920'' = (True, demo_service)
   \<and> fst (verifyPasswordResetCode (demo_service\<lparr>auth_getUserByEmail := \<lambda>e. AuthUserNotFound\<rparr>)
            1000 ''a@x.com'' ''483920'') = True"
  using C9_account_independence
    [of demo_service "demo_service\<lparr>auth_getUserByEmail := \<lambda>e. AuthUserNotFound\<rparr>"
        1000 0 "\<lambda>e c. True" "''a@x.com''" "''483920''"]
  by (simp add: getUserByEmail_demo verify_live [OF resetCodes_demo])
     (simp add: getUserByEmail_def)

section \<open>Other recipients\<close>

text \<open>
  Claim C10. A call of \<^verbatim>\<open>sendPasswordResetCode\<close>, \<^verbatim>\<open>verifyPasswordResetCode\<close>
  or \<^verbatim>\<open>resetPassword\<close> for \<open>email\<close> leaves the entry of every other address
  \<open>email'\<close> as it was: absent if it was absent, and with the same code and expiry
  otherwise.
\<close>

theorem C10_recipient_isolation:
  assumes "email' \<noteq> email"
  shows "resetCodes (snd (sendPasswordResetCode this now u emailService email)) email'
           = resetCodes this email'
       \<and> resetCodes (snd (verifyPasswordResetCode this now email c)) email'
           = resetCodes this email'
       \<and> resetCodes (snd (resetPassword this now email c newPassword)) email'
           = resetCodes this email'"
  using assms
  by (auto simp: send_result resetPassword_def verifyPasswordResetCode_def
      split: option.splits sum.splits)

text \<open>Calls for \<open>b@x.com\<close> leave the code of \<open>a@x.com\<close> alone.\<close>

theorem C10_witness:
  "resetCodes (snd (sendPasswordResetCode demo_service 1000 0 (\<lambda>e c. True) ''b@x.com'')) ''a@x.com''
      = Some \<lparr>code = ''483920'', expires = 600000\<rparr>
   \<and> resetCodes (snd (verifyPasswordResetCode demo_service 1000 ''b@x.com'' ''483920'')) ''a@x.com''
      = Some \<lparr>code = ''483920'', expires = 600000\<rparr>
   \<and> resetCodes (snd (resetPassword demo_service 1000 ''b@x.com'' ''483920'' ''NewPass1!'')) ''a@x.com''
      = Some \<lparr>code = ''483920'', expires = 600000\<rparr>"
  using C10_recipient_isolation [of "''a@x.com''" "''b@x.com''" demo_service 1000 0 "\<lambda>e c. True"
      "''483920''" "''NewPass1!''"]
  by (simp add: resetCodes_demo)

section \<open>The shape of a code\<close>

text \<open>
  Claim C6. For every double \<open>u\<close> in \<open>[0, 1)\<close> that \<^verbatim>\<open>Math.random()\<close> may
  return, the code that \<^verbatim>\<open>sendPasswordResetCode\<close> generates and stores is a string
  of exactly six decimal digits, the first of them not \<open>0\<close>, whose value lies
  between 100000 and 999999.
\<close>

theorem C6_six_digit_code:
  assumes "random_outcome u"
    and "c = toString (code_number u)"
  shows "map_option code (resetCodes (snd (sendPasswordResetCode this now u emailService email)) email)
           = Some c
       \<and> length c = 6
       \<and> set c \<subseteq> set ''0123456789''
       \<and> hd c \<noteq> CHR ''0''
       \<and> 100000 \<le> digits_value c \<and> digits_value c \<le> 999999"
proof -
  have r: "100000 \<le> code_number u" "code_number u \<le> 999999"
    using assms(1) by (rule code_number_range)+
  define n where "n = nat (code_number u)"
  have n: "100000 \<le> n" "n \<le> 999999" using r by (simp_all add: n_def)
  have c: "c = show_nat n" using r by (simp add: assms(2) toString_def n_def)
  have "0 < n" using n by simp
  then have "hd c \<noteq> CHR ''0''" unfolding c using hd_show_nat by blast
  moreover have "length c = 6" unfolding c using n by (rule length_show_nat_6)
  moreover have "set c \<subseteq> set ''0123456789''" unfolding c by (rule set_show_nat)
  moreover have "digits_value c = n" unfolding c by (rule digits_value_show_nat)
  moreover have "map_option code
      (resetCodes (snd (sendPasswordResetCode this now u emailService email)) email) = Some c"
    by (simp add: resetCodes_send assms(2))
  ultimately show ?thesis using n by simp
qed

text \<open>The largest draw, \<open>1 - 2^-53\<close>, gives the largest code.\<close>

theorem C6_witness:
  "random_outcome (1 - 1 / 2 ^ 53)
   \<and> resetCodes (snd (sendPasswordResetCode fresh_service 0 (1 - 1 / 2 ^ 53) (\<lambda>e c. True) ''a@x.com''))
        ''a@x.com'' = Some \<lparr>code = ''999999'', expires = 600000\<rparr>
   \<and> length ''999999'' = 6 \<and> digits_value ''999999'' = 999999"
proof -
  have c: "''999999'' = toString (code_number (1 - 1 / 2 ^ 53))"
    by (simp only: code_number_max toString_999999)
  have "resetCodes (snd (sendPasswordResetCode fresh_service 0 (1 - 1 / 2 ^ 53) (\<lambda>e c. True) ''a@x.com''))
        ''a@x.com'' = Some \<lparr>code = ''999999'', expires = 600000\<rparr>"
    by (simp only: resetCodes_send code_number_max toString_999999) simp
  moreover have "digits_value ''999999'' = 999999"
    by (simp add: digits_value_def digit_value_def)
  ultimately show ?thesis
    using C6_six_digit_code [OF random_outcome_max c, of fresh_service 0 "\<lambda>e c. True" "''a@x.com''"]
      random_outcome_max
    by simp
qed

end
